theory Spec2Isabelle
  imports Main
begin

section \<open>Locus catalogue and name normalisation (defs.py)\<close>

text \<open>
  The catalogue \<open>LOCI\<close> of \<^verbatim>\<open>defs.py\<close>: one row per locus, the canonical name (the
  locus number) first, its synonyms after it.
\<close>

definition LOCI :: "string list list" where
  "LOCI = [
    [''154'', ''MIRU-02'', ''MIRU-2''],
    [''424'', ''VNTR-424'', ''Mtub04'', ''Mtub4''],
    [''577'', ''ETR-C''],
    [''580'', ''MIRU-04'', ''MIRU-4'', ''ETR-D''],
    [''802'', ''MIRU-40''],
    [''960'', ''MIRU-10''],
    [''1644'', ''MIRU-16''],
    [''1955'', ''VNTR-1955'', ''Mtub21''],
    [''2059'', ''MIRU-20''],
    [''2163b'', ''VNTR-2163b'', ''QUB11b''],
    [''2165'', ''ETR-A''],
    [''2347'', ''VNTR-2347'', ''Mtub29''],
    [''2401'', ''VNTR-2401'', ''Mtub30''],
    [''2461'', ''ETR-B''],
    [''2531'', ''MIRU-23''],
    [''2687'', ''MIRU-24''],
    [''2996'', ''MIRU-26''],
    [''3007'', ''MIRU-27'', ''QUB5''],
    [''3171'', ''VNTR-3171'', ''Mtub34''],
    [''3192'', ''MIRU-31'', ''ETR-E''],
    [''3690'', ''VNTR-3690'', ''Mtub39''],
    [''4052'', ''VNTR-4052'', ''QUB26''],
    [''4156'', ''VNTR-4156'', ''QUB4156''],
    [''4348'', ''MIRU-39'']]"

text \<open>
  Characters are read through their code \<open>of_char c :: nat\<close>. \<open>is_space\<close> is the
  whitespace of \<^verbatim>\<open>str.strip()\<close> and of the regular expression class \<^verbatim>\<open>\s\<close> on byte
  strings (tab, line feed, vertical tab, form feed, carriage return, space);
  \<open>lower_chr\<close> and \<open>upper_chr\<close> are \<^verbatim>\<open>str.lower()\<close> and \<^verbatim>\<open>str.upper()\<close> on one
  character of a byte string.
\<close>

definition ord :: "char \<Rightarrow> int" where
  "ord c = of_char c"

definition is_space :: "char \<Rightarrow> bool" where
  "is_space c = (ord c \<in> {9, 10, 11, 12, 13, 32})"

definition lower_chr :: "char \<Rightarrow> char" where
  "lower_chr c = (if 65 \<le> ord c \<and> ord c \<le> 90 then char_of (ord c + 32) else c)"

definition upper_chr :: "char \<Rightarrow> char" where
  "upper_chr c = (if 97 \<le> ord c \<and> ord c \<le> 122 then char_of (ord c - 32) else c)"

definition strip :: "string \<Rightarrow> string" where
  "strip s = rev (dropWhile is_space (rev (dropWhile is_space s)))"

text \<open>
  \<^verbatim>\<open>NORM_RE = re.compile (r'[\s\-\_]+')\<close>: substituting the empty string for every
  match deletes every whitespace, hyphen and underscore character.
\<close>

definition NORM_RE :: "char \<Rightarrow> bool" where
  "NORM_RE c = (is_space c \<or> c = CHR ''-'' \<or> c = CHR ''_'')"

definition normalize_name :: "string \<Rightarrow> string" where
  "normalize_name s = filter (\<lambda>c. \<not> NORM_RE c) (map lower_chr (strip s))"

text \<open>
  The table from every normalised name to the canonical name of its row, built by the
  two nested loops of \<^verbatim>\<open>defs.py\<close> (lines 67 to 70) over a catalogue. Each assignment
  \<^verbatim>\<open>LOCI_TO_INDEX[normalize_name(loci_name)] = x[0]\<close> is a dictionary store: it replaces
  whatever was there. \<open>x[0]\<close> is \<open>hd x\<close>; it is only evaluated inside the inner loop,
  where the row has an element.
\<close>

definition index_row :: "(string \<rightharpoonup> string) \<Rightarrow> string list \<Rightarrow> (string \<rightharpoonup> string)" where
  "index_row m x = foldl (\<lambda>m loci_name. m(normalize_name loci_name \<mapsto> hd x)) m x"

definition build_index :: "string list list \<Rightarrow> (string \<rightharpoonup> string)" where
  "build_index catalogue = foldl index_row Map.empty catalogue"

definition LOCI_TO_INDEX :: "string \<rightharpoonup> string" where
  "LOCI_TO_INDEX = build_index LOCI"

text \<open>The typing schemes: ordered lists of locus names.\<close>

definition ETR :: "string list" where
  "ETR = [''ETR-A'', ''ETR-B'', ''ETR-C'', ''ETR-D'', ''ETR-E'']"

definition MIRU :: "string list" where
  "MIRU = [''MIRU-2'', ''MIRU-4'', ''MIRU-10'', ''MIRU-16'', ''MIRU-20'', ''MIRU-23'',
    ''MIRU-24'', ''MIRU-26'', ''MIRU-27'', ''MIRU-31'', ''MIRU-39'', ''MIRU-40'']"

definition VNTR :: "string list" where
  "VNTR = ETR @ [''MIRU-2'', ''MIRU-10'', ''MIRU-16'', ''MIRU-20'', ''MIRU-23'',
    ''MIRU-24'', ''MIRU-26'', ''MIRU-27'', ''MIRU-39'', ''MIRU-40'']"

definition AUX :: "string list" where
  "AUX = [''VNTR-424'', ''VNTR-1955'', ''VNTR-2163b'', ''VNTR-2347'', ''VNTR-2401'',
    ''VNTR-3171'', ''VNTR-3690'', ''VNTR-4052'', ''VNTR-4156'']"

definition NMRL_15 :: "string list" where
  "NMRL_15 = VNTR"

definition NMRL_24 :: "string list" where
  "NMRL_24 = NMRL_15 @ AUX"


section \<open>Profiles (typing.py, class TbType)\<close>

text \<open>
  The only import of \<^verbatim>\<open>typing.py\<close> is \<^verbatim>\<open>import defs\<close> (line 59), and the class uses
  \<open>LOCI\<close>, \<open>LOCI_TO_INDEX\<close>, \<open>normalize_name\<close>, \<open>NMRL_15\<close> and \<open>NMRL_24\<close> unqualified. A
  global name is looked up in the namespace of the module when the line that uses it
  runs, and the lookup of a name the namespace does not have raises \<^verbatim>\<open>NameError\<close>. The
  functions below take the namespace as a parameter: the set of the names of
  \<^verbatim>\<open>defs.py\<close> that the module binds, each to the value \<^verbatim>\<open>defs.py\<close> gives it.
  \<open>typing_namespace\<close> is the namespace of the module as it is written.
\<close>

type_synonym namespace = "string set"

definition typing_namespace :: namespace where
  "typing_namespace = {''defs''}"

text \<open>
  An object of the class has two attributes: the dictionary \<^verbatim>\<open>_data\<close> from canonical
  locus names to a count or \<^verbatim>\<open>None\<close>, and the symbol \<^verbatim>\<open>ambig_sym\<close> written for
  \<^verbatim>\<open>None\<close>. A key of the dictionary bound to \<^verbatim>\<open>None\<close> is \<open>Some None\<close>; a key the
  dictionary does not have is \<open>None\<close>. The symbol is one character.
\<close>

record profile =
  data :: "string \<rightharpoonup> int option"
  ambig_sym :: char

text \<open>
  The ways a call fails:
  \<^item> \<open>NameError n\<close>: the lookup of the global name \<open>n\<close>, which the namespace does not
    have; \<^verbatim>\<open>false\<close> (line 172) is a name of no module;
  \<^item> \<open>UnknownLocus\<close>: the \<^verbatim>\<open>KeyError\<close> of \<^verbatim>\<open>LOCI_TO_INDEX[...]\<close> or \<^verbatim>\<open>_data[...]\<close>;
  \<^item> \<open>InvalidValue\<close>: the \<^verbatim>\<open>AssertionError\<close> of \<^verbatim>\<open>__setitem__\<close> on a value that is not
    a string (lines 125 and 126);
  \<^item> \<open>LengthMismatch\<close>: the \<^verbatim>\<open>AssertionError\<close> of line 173;
  \<^item> \<open>ValueError\<close>: \<^verbatim>\<open>chr\<close> of a number outside \<open>0..255\<close>.
\<close>

datatype error =
  NameError string | UnknownLocus | InvalidValue | LengthMismatch | ValueError

text \<open>
  A method is a function from the object's state to its result, or the failure it
  raises, and the state it leaves: the object is mutable, and an exception keeps the
  assignments made before it.
\<close>

type_synonym 'a action = "profile \<Rightarrow> (error + 'a) \<times> profile"

definition ret :: "'a \<Rightarrow> 'a action" where
  "ret x = (\<lambda>self. (Inr x, self))"

definition raise :: "error \<Rightarrow> 'a action" where
  "raise e = (\<lambda>self. (Inl e, self))"

definition seq :: "'a action \<Rightarrow> ('a \<Rightarrow> 'b action) \<Rightarrow> 'b action" where
  "seq m f = (\<lambda>self. case m self of
      (Inl e, self') \<Rightarrow> (Inl e, self')
    | (Inr x, self') \<Rightarrow> f x self')"

text \<open>
  The use of the global name \<open>n\<close>, whose value in \<^verbatim>\<open>defs.py\<close> is \<open>v\<close>, in the
  namespace \<open>g\<close>.
\<close>

definition load_global :: "namespace \<Rightarrow> string \<Rightarrow> 'a \<Rightarrow> 'a action" where
  "load_global g n v = (if n \<in> g then ret v else raise (NameError n))"

text \<open>A list comprehension \<^verbatim>\<open>[f(x) for x in xs]\<close> whose body calls a method.\<close>

fun for_each :: "('a \<Rightarrow> 'b action) \<Rightarrow> 'a list \<Rightarrow> 'b list action" where
  "for_each f [] = ret []"
| "for_each f (x # xs) = seq (f x) (\<lambda>y. seq (for_each f xs) (\<lambda>ys. ret (y # ys)))"

subsection \<open>Character encoding of counts\<close>

text \<open>
  \<^verbatim>\<open>alpha_to_int (self, c)\<close> on a string of one character: \<^verbatim>\<open>int(c)\<close> of a digit is its
  code minus 48.
\<close>

definition alpha_to_int :: "char \<Rightarrow> int option action" where
  "alpha_to_int c = (\<lambda>self.
     if c = ambig_sym self then ret None self
     else if ord (CHR ''0'') \<le> ord c \<and> ord c \<le> ord (CHR ''9'') then ret (Some (ord c - 48)) self
     else ret (Some (ord (upper_chr c) - ord (CHR ''A'') + 10)) self)"

text \<open>\<^verbatim>\<open>"%s" % i\<close> for an integer: its decimal numeral, with a minus sign below zero.\<close>

function str_nat :: "nat \<Rightarrow> string" where
  "str_nat n = (if n < 10 then [char_of (48 + n)] else str_nat (n div 10) @ [char_of (48 + n mod 10)])"
  by pat_completeness auto
termination
  by (relation "measure id") auto

definition str_int :: "int \<Rightarrow> string" where
  "str_int i = (if i < 0 then CHR ''-'' # str_nat (nat (- i)) else str_nat (nat i))"

text \<open>
  \<^verbatim>\<open>int_to_alpha (self, i)\<close>; \<^verbatim>\<open>chr\<close> raises \<^verbatim>\<open>ValueError\<close> from 256 on (its argument is
  at least 65 here).
\<close>

definition int_to_alpha :: "int option \<Rightarrow> string action" where
  "int_to_alpha i = (\<lambda>self.
     case i of
       None \<Rightarrow> ret [ambig_sym self] self
     | Some n \<Rightarrow>
         if n < 10 then ret (str_int n) self
         else if n - 10 + ord (CHR ''A'') < 256 then ret [char_of (n - 10 + ord (CHR ''A''))] self
         else raise ValueError self)"

subsection \<open>Access by any name of a locus\<close>

text \<open>
  Line 103, \<^verbatim>\<open>self._data[LOCI_TO_INDEX[normalize_name(loci)]]\<close>: the two global names
  are looked up in the order they are written, before any subscript is taken.
\<close>

definition getitem :: "namespace \<Rightarrow> string \<Rightarrow> int option action" where
  "getitem g loci =
     seq (load_global g ''LOCI_TO_INDEX'' LOCI_TO_INDEX) (\<lambda>index.
     seq (load_global g ''normalize_name'' normalize_name) (\<lambda>normalize self.
       case index (normalize loci) of
         None \<Rightarrow> raise UnknownLocus self
       | Some k \<Rightarrow> (case data self k of
           None \<Rightarrow> raise UnknownLocus self
         | Some v \<Rightarrow> ret v self)))"

text \<open>
  The value given to \<^verbatim>\<open>__setitem__\<close>: a string of one character, an \<^verbatim>\<open>int\<close> or a
  \<^verbatim>\<open>long\<close>. The language of the source has the two integer types (an integer above
  \<^verbatim>\<open>sys.maxint\<close> is a \<^verbatim>\<open>long\<close>), and a \<^verbatim>\<open>long\<close> is no instance of \<^verbatim>\<open>int\<close>: it fails
  the assertion of line 125. The value is converted or checked first (lines 122 to
  126); the store of line 127 looks the global names up after that.
\<close>

datatype pyvalue = StrVal char | IntVal int | LongVal int

definition setitem :: "namespace \<Rightarrow> string \<Rightarrow> pyvalue \<Rightarrow> unit action" where
  "setitem g loci val =
     seq (case val of
            StrVal c \<Rightarrow> alpha_to_int (upper_chr c)
          | IntVal n \<Rightarrow> if 0 < n then ret (Some n) else raise InvalidValue
          | LongVal n \<Rightarrow> raise InvalidValue) (\<lambda>v.
     seq (load_global g ''LOCI_TO_INDEX'' LOCI_TO_INDEX) (\<lambda>index.
     seq (load_global g ''normalize_name'' normalize_name) (\<lambda>normalize self.
       case index (normalize loci) of
         None \<Rightarrow> raise UnknownLocus self
       | Some k \<Rightarrow> ret () (self\<lparr>data := (data self)(k \<mapsto> v)\<rparr>))))"

subsection \<open>Decoding and encoding against a scheme\<close>

text \<open>
  The scheme of \<^verbatim>\<open>from_string\<close> when none is given (lines 166 to 172). The two tests on
  the length are two separate \<^verbatim>\<open>if\<close> statements, and the \<^verbatim>\<open>else\<close> belongs to the
  second: the scheme chosen by the first is kept only when the second test holds too.
  The \<^verbatim>\<open>else\<close> is \<^verbatim>\<open>assert (false)\<close>, which looks the name \<^verbatim>\<open>false\<close> up.
\<close>

definition infer_scheme :: "namespace \<Rightarrow> string \<Rightarrow> string list action" where
  "infer_scheme g s =
     seq (if length s = 24 then seq (load_global g ''NMRL_24'' NMRL_24) (\<lambda>v. ret (Some v))
          else ret None) (\<lambda>scheme.
     if length s = 15 then load_global g ''NMRL_15'' NMRL_15
     else raise (NameError ''false''))"

text \<open>\<^verbatim>\<open>for k in self._data.keys(): self._data[k] = None\<close>\<close>

definition clear :: "unit action" where
  "clear = (\<lambda>self. ret () (self\<lparr>data := (\<lambda>k. case data self k of None \<Rightarrow> None | Some v \<Rightarrow> Some None)\<rparr>))"

text \<open>
  \<^verbatim>\<open>for i, k in enumerate(scheme): self[k] = s[i]\<close>, from index \<open>i\<close> on. The assertion
  before the loop makes every index a position of \<open>s\<close>.
\<close>

fun assign :: "namespace \<Rightarrow> string \<Rightarrow> nat \<Rightarrow> string list \<Rightarrow> unit action" where
  "assign g s i [] = ret ()"
| "assign g s i (k # ks) = seq (setitem g k (StrVal (s ! i))) (\<lambda>u. assign g s (Suc i) ks)"

definition from_string :: "namespace \<Rightarrow> string \<Rightarrow> string list option \<Rightarrow> unit action" where
  "from_string g s scheme =
     seq (case scheme of None \<Rightarrow> infer_scheme g s | Some sch \<Rightarrow> ret sch)
       (\<lambda>sch. if length s \<noteq> length sch then raise LengthMismatch
              else seq clear (\<lambda>u. assign g s 0 sch))"

definition to_array :: "namespace \<Rightarrow> string list option \<Rightarrow> int option list action" where
  "to_array g scheme =
     seq (case scheme of None \<Rightarrow> load_global g ''NMRL_24'' NMRL_24 | Some sch \<Rightarrow> ret sch)
       (\<lambda>sch. for_each (getitem g) sch)"

definition to_string :: "namespace \<Rightarrow> string list option \<Rightarrow> string action" where
  "to_string g scheme =
     seq (to_array g scheme) (\<lambda>xs. seq (for_each int_to_alpha xs) (\<lambda>cs. ret (concat cs)))"

text \<open>
  The constructor (lines 82 to 85): every canonical name of \<open>LOCI\<close> bound to
  \<^verbatim>\<open>None\<close>, then the symbol, then \<^verbatim>\<open>from_string\<close> when \<open>data\<close> is given and not empty.
  It returns the object, or raises and returns none.
\<close>

definition dict :: "('k \<times> 'v) list \<Rightarrow> ('k \<rightharpoonup> 'v)" where
  "dict kvs = foldl (\<lambda>m (k, v). m(k \<mapsto> v)) Map.empty kvs"

definition TbType :: "namespace \<Rightarrow> string option \<Rightarrow> string list option \<Rightarrow> char \<Rightarrow> error + profile" where
  "TbType g dat scheme ambig =
     (if ''LOCI'' \<notin> g then Inl (NameError ''LOCI'')
      else
        let self = \<lparr>data = dict (map (\<lambda>x. (hd x, None)) LOCI), ambig_sym = ambig\<rparr> in
        case dat of
          None \<Rightarrow> Inr self
        | Some s \<Rightarrow>
            if s = [] then Inr self
            else (case from_string g s scheme self of
                    (Inl e, self') \<Rightarrow> Inl e
                  | (Inr u, self') \<Rightarrow> Inr self'))"

text \<open>
  The method \<^verbatim>\<open>phylo_type\<close> (lines 281 to 318) has no embedding: its text is not a
  statement of the language. Each of its seven conditions closes one parenthesis more
  than it opens, and the last \<^verbatim>\<open>else\<close> has no colon.
\<close>

section \<open>Vocabulary of the properties\<close>

text \<open>
  The entries the index loops write, in the order they write them: every name of
  every row, normalised, with the canonical name of the row.
\<close>

definition entries :: "string list list \<Rightarrow> (string \<times> string) list" where
  "entries catalogue = concat (map (\<lambda>x. map (\<lambda>n. (normalize_name n, hd x)) x) catalogue)"

text \<open>
  The characters of an interchange string: the ambiguous symbol \<open>a\<close> of the profile, a
  decimal digit or an uppercase letter.
\<close>

definition is_digit :: "char \<Rightarrow> bool" where
  "is_digit c = (ord (CHR ''0'') \<le> ord c \<and> ord c \<le> ord (CHR ''9''))"

definition is_upper :: "char \<Rightarrow> bool" where
  "is_upper c = (ord (CHR ''A'') \<le> ord c \<and> ord c \<le> ord (CHR ''Z''))"

definition valid_chr :: "char \<Rightarrow> char \<Rightarrow> bool" where
  "valid_chr a c = (c = a \<or> is_digit c \<or> is_upper c)"

text \<open>The value \<open>alpha_to_int\<close> returns for \<open>c\<close> on a profile whose ambiguous symbol is \<open>a\<close>.\<close>

definition decoded :: "char \<Rightarrow> char \<Rightarrow> int option" where
  "decoded a c =
     (if c = a then None
      else if is_digit c then Some (ord c - 48)
      else Some (ord (upper_chr c) - 55))"

text \<open>A method that leaves the state of every profile as it found it.\<close>

definition readonly :: "'a action \<Rightarrow> bool" where
  "readonly m = (\<forall>self. snd (m self) = self)"

text \<open>
  A namespace that has the five names of \<^verbatim>\<open>defs.py\<close> the class uses, and a profile
  with every canonical name as a key, two counts set, and the symbol \<^verbatim>\<open>-\<close>.
\<close>

definition defs_names :: namespace where
  "defs_names = {''defs'', ''LOCI'', ''LOCI_TO_INDEX'', ''normalize_name'', ''NMRL_15'', ''NMRL_24''}"

definition typed :: profile where
  "typed = \<lparr>data = (dict (map (\<lambda>x. (hd x, None)) LOCI))(''424'' \<mapsto> Some 9, ''2165'' \<mapsto> Some 1),
            ambig_sym = CHR ''-''\<rparr>"

section \<open>Running methods\<close>

lemma ret_apply [simp]: "ret x self = (Inr x, self)"
  by (simp add: ret_def)

lemma raise_apply [simp]: "raise e self = (Inl e, self)"
  by (simp add: raise_def)

lemma seq_Inr [simp]: "m self = (Inr x, self') \<Longrightarrow> seq m f self = f x self'"
  by (simp add: seq_def)

lemma seq_Inl [simp]: "m self = (Inl e, self') \<Longrightarrow> seq m f self = (Inl e, self')"
  by (simp add: seq_def)

section \<open>The index table\<close>

lemma index_names_apply:
  "foldl (\<lambda>m n. m(normalize_name n \<mapsto> c)) m xs =
     m ++ map_of (rev (map (\<lambda>n. (normalize_name n, c)) xs))"
  by (induction xs arbitrary: m) (simp_all add: map_add_upd_left)

lemma foldl_index_row:
  "foldl index_row m catalogue = m ++ map_of (rev (entries catalogue))"
  by (induction catalogue arbitrary: m)
     (simp_all add: entries_def index_row_def index_names_apply)

lemma build_index_map_of: "build_index catalogue = map_of (rev (entries catalogue))"
  by (simp add: build_index_def foldl_index_row)

lemma entries_LOCI: "rev (entries LOCI) = [(''miru39'', ''4348''), (''4348'', ''4348''), (''qub4156'', ''4156''),
  (''vntr4156'', ''4156''), (''4156'', ''4156''), (''qub26'', ''4052''),
  (''vntr4052'', ''4052''), (''4052'', ''4052''), (''mtub39'', ''3690''),
  (''vntr3690'', ''3690''), (''3690'', ''3690''), (''etre'', ''3192''),
  (''miru31'', ''3192''), (''3192'', ''3192''), (''mtub34'', ''3171''),
  (''vntr3171'', ''3171''), (''3171'', ''3171''), (''qub5'', ''3007''),
  (''miru27'', ''3007''), (''3007'', ''3007''), (''miru26'', ''2996''),
  (''2996'', ''2996''), (''miru24'', ''2687''), (''2687'', ''2687''),
  (''miru23'', ''2531''), (''2531'', ''2531''), (''etrb'', ''2461''),
  (''2461'', ''2461''), (''mtub30'', ''2401''), (''vntr2401'', ''2401''),
  (''2401'', ''2401''), (''mtub29'', ''2347''), (''vntr2347'', ''2347''),
  (''2347'', ''2347''), (''etra'', ''2165''), (''2165'', ''2165''),
  (''qub11b'', ''2163b''), (''vntr2163b'', ''2163b''),
  (''2163b'', ''2163b''), (''miru20'', ''2059''), (''2059'', ''2059''),
  (''mtub21'', ''1955''), (''vntr1955'', ''1955''), (''1955'', ''1955''),
  (''miru16'', ''1644''), (''1644'', ''1644''), (''miru10'', ''960''),
  (''960'', ''960''), (''miru40'', ''802''), (''802'', ''802''),
  (''etrd'', ''580''), (''miru4'', ''580''), (''miru04'', ''580''),
  (''580'', ''580''), (''etrc'', ''577''), (''577'', ''577''),
  (''mtub4'', ''424''), (''mtub04'', ''424''), (''vntr424'', ''424''),
  (''424'', ''424''), (''miru2'', ''154''), (''miru02'', ''154''),
  (''154'', ''154'')]"
  by code_simp

lemma LOCI_TO_INDEX_table: "LOCI_TO_INDEX = map_of [(''miru39'', ''4348''), (''4348'', ''4348''), (''qub4156'', ''4156''),
  (''vntr4156'', ''4156''), (''4156'', ''4156''), (''qub26'', ''4052''),
  (''vntr4052'', ''4052''), (''4052'', ''4052''), (''mtub39'', ''3690''),
  (''vntr3690'', ''3690''), (''3690'', ''3690''), (''etre'', ''3192''),
  (''miru31'', ''3192''), (''3192'', ''3192''), (''mtub34'', ''3171''),
  (''vntr3171'', ''3171''), (''3171'', ''3171''), (''qub5'', ''3007''),
  (''miru27'', ''3007''), (''3007'', ''3007''), (''miru26'', ''2996''),
  (''2996'', ''2996''), (''miru24'', ''2687''), (''2687'', ''2687''),
  (''miru23'', ''2531''), (''2531'', ''2531''), (''etrb'', ''2461''),
  (''2461'', ''2461''), (''mtub30'', ''2401''), (''vntr2401'', ''2401''),
  (''2401'', ''2401''), (''mtub29'', ''2347''), (''vntr2347'', ''2347''),
  (''2347'', ''2347''), (''etra'', ''2165''), (''2165'', ''2165''),
  (''qub11b'', ''2163b''), (''vntr2163b'', ''2163b''),
  (''2163b'', ''2163b''), (''miru20'', ''2059''), (''2059'', ''2059''),
  (''mtub21'', ''1955''), (''vntr1955'', ''1955''), (''1955'', ''1955''),
  (''miru16'', ''1644''), (''1644'', ''1644''), (''miru10'', ''960''),
  (''960'', ''960''), (''miru40'', ''802''), (''802'', ''802''),
  (''etrd'', ''580''), (''miru4'', ''580''), (''miru04'', ''580''),
  (''580'', ''580''), (''etrc'', ''577''), (''577'', ''577''),
  (''mtub4'', ''424''), (''mtub04'', ''424''), (''vntr424'', ''424''),
  (''424'', ''424''), (''miru2'', ''154''), (''miru02'', ''154''),
  (''154'', ''154'')]"
  unfolding LOCI_TO_INDEX_def build_index_map_of entries_LOCI ..


lemma table_distinct: "distinct (map fst (rev (entries LOCI)))"
  unfolding entries_LOCI by simp

lemma entry_of_synonym: "row \<in> set catalogue \<Longrightarrow> n \<in> set row \<Longrightarrow> (normalize_name n, hd row) \<in> set (entries catalogue)"
  by (auto simp: entries_def)

lemma synonym_resolves:
  "row \<in> set LOCI \<Longrightarrow> n \<in> set row \<Longrightarrow> LOCI_TO_INDEX (normalize_name n) = Some (hd row)"
  unfolding LOCI_TO_INDEX_def build_index_map_of
  by (rule map_of_is_SomeI [OF table_distinct]) (simp add: entry_of_synonym)

declare LOCI_TO_INDEX_table [code]

section \<open>Methods that only read\<close>

lemma seq_apply:
  "seq m f self = (case m self of (Inl e, self') \<Rightarrow> (Inl e, self') | (Inr x, self') \<Rightarrow> f x self')"
  by (simp add: seq_def)

lemma load_global_apply:
  "load_global g n v self = (if n \<in> g then (Inr v, self) else (Inl (NameError n), self))"
  by (simp add: load_global_def)

lemma readonly_ret: "readonly (ret x)"
  by (simp add: readonly_def)

lemma readonly_seq: "readonly m \<Longrightarrow> (\<And>x. readonly (f x)) \<Longrightarrow> readonly (seq m f)"
  unfolding readonly_def seq_apply
  by (auto split: prod.splits sum.splits) (metis snd_conv)+

lemma readonly_for_each: "(\<And>x. readonly (f x)) \<Longrightarrow> readonly (for_each f xs)"
  by (induction xs) (auto intro!: readonly_seq readonly_ret)

lemma readonly_load_global: "readonly (load_global g n v)"
  by (simp add: readonly_def load_global_apply)

lemma readonly_getitem: "readonly (getitem g loci)"
  unfolding getitem_def
  by (intro readonly_seq readonly_load_global) (simp add: readonly_def split: option.splits)

lemma alpha_to_int_apply: "alpha_to_int c self = (Inr (decoded (ambig_sym self) c), self)"
  by (simp add: alpha_to_int_def decoded_def is_digit_def ord_def)

lemma readonly_int_to_alpha: "readonly (int_to_alpha i)"
  by (simp add: readonly_def int_to_alpha_def split: option.splits)

lemma readonly_to_array: "readonly (to_array g scheme)"
  unfolding to_array_def
  by (intro readonly_seq readonly_for_each readonly_getitem)
     (simp add: readonly_load_global readonly_ret split: option.splits)

lemma readonly_to_string: "readonly (to_string g scheme)"
  unfolding to_string_def
  by (intro readonly_seq readonly_to_array readonly_for_each readonly_int_to_alpha readonly_ret)

section \<open>The setter and the assignment loop\<close>

lemma setitem_StrVal:
  "setitem g n (StrVal c) p =
     (if ''LOCI_TO_INDEX'' \<notin> g then (Inl (NameError ''LOCI_TO_INDEX''), p)
      else if ''normalize_name'' \<notin> g then (Inl (NameError ''normalize_name''), p)
      else case LOCI_TO_INDEX (normalize_name n) of
        None \<Rightarrow> (Inl UnknownLocus, p)
      | Some k \<Rightarrow> (Inr (), p\<lparr>data := (data p)(k \<mapsto> decoded (ambig_sym p) (upper_chr c))\<rparr>))"
  by (simp add: setitem_def seq_apply alpha_to_int_apply load_global_apply split: option.splits)

lemma setitem_IntVal:
  "setitem g n (IntVal v) p =
     (if \<not> 0 < v then (Inl InvalidValue, p)
      else if ''LOCI_TO_INDEX'' \<notin> g then (Inl (NameError ''LOCI_TO_INDEX''), p)
      else if ''normalize_name'' \<notin> g then (Inl (NameError ''normalize_name''), p)
      else case LOCI_TO_INDEX (normalize_name n) of
        None \<Rightarrow> (Inl UnknownLocus, p)
      | Some k \<Rightarrow> (Inr (), p\<lparr>data := (data p)(k \<mapsto> Some v)\<rparr>))"
  by (simp add: setitem_def seq_apply load_global_apply split: option.splits)

lemma setitem_LongVal: "setitem g n (LongVal v) p = (Inl InvalidValue, p)"
  by (simp add: setitem_def seq_apply)

lemma setitem_other:
  "(''LOCI_TO_INDEX'' \<in> g \<longrightarrow> ''normalize_name'' \<in> g \<longrightarrow> LOCI_TO_INDEX (normalize_name n) \<noteq> Some k)
     \<Longrightarrow> data (snd (setitem g n val p)) k = data p k"
  by (cases val) (auto simp: setitem_StrVal setitem_IntVal setitem_LongVal split: option.splits)

lemma assign_frame:
  "(''LOCI_TO_INDEX'' \<in> g \<longrightarrow> ''normalize_name'' \<in> g \<longrightarrow>
      (\<forall>n\<in>set ks. LOCI_TO_INDEX (normalize_name n) \<noteq> Some k)) \<Longrightarrow>
     data (snd (assign g s i ks p)) k = data p k"
proof (induction ks arbitrary: i p)
  case Nil
  then show ?case by simp
next
  case (Cons a ks)
  obtain r p1 where st: "setitem g a (StrVal (s ! i)) p = (r, p1)"
    by (cases "setitem g a (StrVal (s ! i)) p")
  have p1: "data p1 k = data p k"
    using setitem_other [of g a k "StrVal (s ! i)" p] Cons.prems st by simp
  show ?case
  proof (cases r)
    case (Inl e)
    with st p1 show ?thesis by simp
  next
    case (Inr u)
    with st have "assign g s i (a # ks) p = assign g s (Suc i) ks p1" by simp
    with Cons p1 show ?thesis by simp
  qed
qed

lemma clear_apply:
  "clear p = (Inr (), p\<lparr>data := (\<lambda>k. case data p k of None \<Rightarrow> None | Some v \<Rightarrow> Some None)\<rparr>)"
  by (simp add: clear_def)

lemma from_string_Some:
  "length s = length ks \<Longrightarrow> from_string g s (Some ks) p = assign g s 0 ks (snd (clear p))"
  by (simp add: from_string_def seq_apply clear_apply)

lemma from_string_resets:
  assumes "length s = length scheme" "k \<in> dom (data p)"
    "''LOCI_TO_INDEX'' \<in> g \<longrightarrow> ''normalize_name'' \<in> g \<longrightarrow>
      (\<forall>n\<in>set scheme. LOCI_TO_INDEX (normalize_name n) \<noteq> Some k)"
  shows "data (snd (from_string g s (Some scheme) p)) k = Some None"
proof -
  have "data (snd (from_string g s (Some scheme) p)) k = data (snd (clear p)) k"
    using assms(1,3) by (simp add: from_string_Some assign_frame)
  also have "\<dots> = Some None"
    using assms(2) by (auto simp: clear_apply)
  finally show ?thesis .
qed

section \<open>The module as it is written\<close>

lemma unbound:
  "''LOCI'' \<notin> typing_namespace" "''LOCI_TO_INDEX'' \<notin> typing_namespace"
  "''normalize_name'' \<notin> typing_namespace" "''NMRL_15'' \<notin> typing_namespace"
  "''NMRL_24'' \<notin> typing_namespace"
  by (simp_all add: typing_namespace_def)

lemma getitem_unbound: "getitem typing_namespace n p = (Inl (NameError ''LOCI_TO_INDEX''), p)"
  by (simp add: getitem_def seq_apply load_global_apply unbound)

lemma assign_unbound:
  "ks \<noteq> [] \<Longrightarrow> assign typing_namespace s i ks p = (Inl (NameError ''LOCI_TO_INDEX''), p)"
  by (cases ks) (simp_all add: seq_apply setitem_StrVal unbound)

lemma from_string_unbound:
  "scheme \<noteq> [] \<Longrightarrow> length s = length scheme \<Longrightarrow>
     from_string typing_namespace s (Some scheme) p = (Inl (NameError ''LOCI_TO_INDEX''), snd (clear p))"
  by (simp add: from_string_Some assign_unbound)

lemma to_array_unbound:
  "scheme \<noteq> [] \<Longrightarrow> to_array typing_namespace (Some scheme) p = (Inl (NameError ''LOCI_TO_INDEX''), p)"
  "to_array typing_namespace None p = (Inl (NameError ''NMRL_24''), p)"
  by (cases scheme) (simp_all add: to_array_def seq_apply getitem_unbound load_global_apply unbound)

lemma to_string_unbound:
  "scheme \<noteq> [] \<Longrightarrow> to_string typing_namespace (Some scheme) p = (Inl (NameError ''LOCI_TO_INDEX''), p)"
  "to_string typing_namespace None p = (Inl (NameError ''NMRL_24''), p)"
  by (simp_all add: to_string_def seq_apply to_array_unbound)

lemma length_NMRL: "length NMRL_15 = 15" "length NMRL_24 = 24"
  by (simp_all add: NMRL_24_def NMRL_15_def VNTR_def ETR_def AUX_def)

lemma typed_sym: "ambig_sym typed = CHR ''-''"
  by (simp add: typed_def)

lemma ord_nat: "ord c = int (of_char c)"
  by (simp add: ord_def of_nat_of_char)

lemma ord_consts: "ord (CHR ''0'') = 48" "ord (CHR ''9'') = 57" "ord (CHR ''A'') = 65" "ord (CHR ''Z'') = 90"
  by (simp_all add: ord_def)

lemma upper_chr_fixed: "ord c < 97 \<Longrightarrow> upper_chr c = c"
  by (simp add: upper_chr_def)

lemma int_to_alpha_digit:
  assumes "is_digit c"
  shows "int_to_alpha (Some (ord c - 48)) p = (Inr [c], p)"
proof -
  define n :: nat where "n = of_char c"
  have c: "char_of n = c" and o: "ord c = int n"
    by (simp_all add: n_def ord_nat)
  from assms have "48 \<le> n" "n \<le> 57"
    by (simp_all add: is_digit_def ord_consts o)
  then have "48 + nat (int n - 48) = n" "int n - 48 < 10" "\<not> int n - 48 < 0"
    by simp_all
  then show ?thesis
    by (simp add: int_to_alpha_def str_int_def o c)
qed

lemma int_to_alpha_upper:
  assumes "is_upper c"
  shows "int_to_alpha (Some (ord c - 55)) p = (Inr [c], p)"
proof -
  define n :: nat where "n = of_char c"
  have c: "char_of n = c" and o: "ord c = int n"
    by (simp_all add: n_def ord_nat)
  from assms have "65 \<le> n" "n \<le> 90"
    by (simp_all add: is_upper_def ord_consts o)
  then have "\<not> int n - 55 < 10" "int n - 55 - 10 + 65 = int n" "int n < 256"
    by simp_all
  then show ?thesis
    using c by (simp add: int_to_alpha_def o ord_consts)
qed

lemma ord_char_of: "0 \<le> x \<Longrightarrow> x < 256 \<Longrightarrow> ord (char_of x) = x"
  by (simp add: ord_def)

section \<open>Inferring the scheme from the length\<close>

text \<open>
  C1. The specification: without a scheme, a string of 15 characters is decoded with the
  15-locus scheme, a string of 24 characters with the 24-locus scheme, and any other
  length fails. For 24 characters the code never uses the 24-locus scheme, whatever
  the namespace: where \<open>NMRL_24\<close> is bound, the scheme is chosen and the \<^verbatim>\<open>else\<close> of the
  test for 15 then runs \<^verbatim>\<open>assert (false)\<close>; where it is not bound, as in the module as
  written, its lookup fails. In both cases the call raises and the profile is left as
  it was.
\<close>

theorem from_string_inferred_24_fails:
  "length s = 24 \<Longrightarrow>
     from_string g s None p =
       (Inl (NameError (if ''NMRL_24'' \<in> g then ''false'' else ''NMRL_24'')), p)"
  by (simp add: from_string_def infer_scheme_def seq_apply load_global_apply)

theorem from_string_inferred_24_fails_witness:
  "length ''3481096A2C22806---------'' = 24 \<and>
   from_string typing_namespace ''3481096A2C22806---------'' None typed =
     (Inl (NameError ''NMRL_24''), typed) \<and>
   from_string defs_names ''3481096A2C22806---------'' None typed =
     (Inl (NameError ''false''), typed)"
proof -
  have l: "length ''3481096A2C22806---------'' = 24"
    by simp
  have "''NMRL_24'' \<in> defs_names"
    by (simp add: defs_names_def)
  with l show ?thesis
    using from_string_inferred_24_fails [OF l, of typing_namespace typed]
      from_string_inferred_24_fails [OF l, of defs_names typed]
    by (simp add: unbound)
qed

section \<open>Exporting does not change the profile\<close>

text \<open>
  C10. \<open>to_string\<close> and \<open>to_array\<close> leave the profile as it was, whatever the namespace
  and the scheme and whether they return or raise: the dictionary and the ambiguous
  symbol after the call are those before it.
\<close>

theorem export_leaves_profile:
  "snd (to_string g scheme p) = p \<and> snd (to_array g scheme p) = p"
  using readonly_to_string [of g scheme] readonly_to_array [of g scheme]
  by (simp add: readonly_def)

section \<open>Decoding and encoding in the module as written\<close>

text \<open>
  C2. The specification: decoding a string of 15 or 24 valid characters with the
  matching scheme and encoding with that scheme returns the string, as the example of
  the docstring of \<^verbatim>\<open>to_string\<close> shows. In the module as written no decoding
  returns: with a scheme that is not empty and as long as the string, \<^verbatim>\<open>from_string\<close>
  resets the dictionary and raises \<^verbatim>\<open>NameError\<close> at the first assignment (line 127),
  and \<^verbatim>\<open>to_string\<close> raises at the first read (line 103).
\<close>

theorem decode_encode_raise:
  "scheme \<noteq> [] \<Longrightarrow> length s = length scheme \<Longrightarrow>
     from_string typing_namespace s (Some scheme) p =
       (Inl (NameError ''LOCI_TO_INDEX''), snd (clear p)) \<and>
     to_string typing_namespace (Some scheme) q = (Inl (NameError ''LOCI_TO_INDEX''), q)"
  by (simp add: from_string_unbound to_string_unbound)

theorem decode_encode_raise_witness:
  "from_string typing_namespace ''3481096A2C22806'' (Some NMRL_15) typed =
     (Inl (NameError ''LOCI_TO_INDEX''), snd (clear typed)) \<and>
   to_string typing_namespace (Some NMRL_15) typed = (Inl (NameError ''LOCI_TO_INDEX''), typed)"
proof -
  have n: "NMRL_15 \<noteq> []"
    using length_NMRL(1) by auto
  have l: "length ''3481096A2C22806'' = length NMRL_15"
    by (simp add: length_NMRL)
  show ?thesis
    using decode_encode_raise [OF n l, of typed typed] by simp
qed

text \<open>
  The two conversions by themselves do not return every valid character either:
  \<^verbatim>\<open>__setitem__\<close> upper-cases the character before \<open>alpha_to_int\<close> compares it with the
  symbol, so a lowercase symbol is read as the letter.
\<close>

lemma lowercase_symbol_read_as_letter:
  "fst (alpha_to_int (upper_chr (CHR ''x'')) (typed\<lparr>ambig_sym := CHR ''x''\<rparr>)) = Inr (Some 33) \<and>
   fst (int_to_alpha (Some 33) (typed\<lparr>ambig_sym := CHR ''x''\<rparr>)) = Inr ''X''"
  by code_simp

section \<open>Decoding resets the profile\<close>

lemma typed_424: "data typed ''424'' = Some (Some 9)"
  by (simp add: typed_def)

text \<open>
  C6. The specification: \<^verbatim>\<open>from_string\<close> binds every key to \<^verbatim>\<open>None\<close> before it assigns,
  so every locus the scheme does not name is ambiguous afterwards; and decoding
  \<^verbatim>\<open>3481096A2C22806\<close> with the 15-locus scheme, then encoding with the default scheme,
  gives the string followed by nine ambiguous symbols (the example of the docstring of
  \<^verbatim>\<open>to_string\<close>). The first part holds in every namespace: once the length matches
  the scheme, a key of the dictionary that no name of the scheme resolves to is bound
  to \<^verbatim>\<open>None\<close> after the call, whether it returns or raises. The example does not hold in
  the module as written: the decoding resets the dictionary and raises, and the
  encoding with the default scheme raises at the lookup of \<open>NMRL_24\<close>.
\<close>

theorem from_string_resets_first:
  "(length s = length scheme \<and> k \<in> dom (data p) \<and>
    (''LOCI_TO_INDEX'' \<in> g \<longrightarrow> ''normalize_name'' \<in> g \<longrightarrow>
       (\<forall>n\<in>set scheme. LOCI_TO_INDEX (normalize_name n) \<noteq> Some k)) \<longrightarrow>
      data (snd (from_string g s (Some scheme) p)) k = Some None) \<and>
   from_string typing_namespace ''3481096A2C22806'' (Some NMRL_15) p =
     (Inl (NameError ''LOCI_TO_INDEX''), snd (clear p)) \<and>
   to_string typing_namespace None q = (Inl (NameError ''NMRL_24''), q)"
proof -
  have "NMRL_15 \<noteq> []" "length ''3481096A2C22806'' = length NMRL_15"
    using length_NMRL(1) by auto
  then show ?thesis
    using from_string_resets [of s scheme k p g]
    by (simp add: from_string_unbound to_string_unbound)
qed

theorem from_string_resets_first_witness:
  "data typed ''424'' = Some (Some 9) \<and>
   data (snd (from_string typing_namespace ''3481096A2C22806'' (Some NMRL_15) typed)) ''424'' = Some None \<and>
   data (snd (from_string defs_names ''3481096A2C22806'' (Some NMRL_15) typed)) ''424'' = Some None"
proof -
  have l: "length ''3481096A2C22806'' = length NMRL_15"
    by (simp add: length_NMRL)
  have d: "''424'' \<in> dom (data typed)"
    using typed_424 by (rule domI)
  have u: "''LOCI_TO_INDEX'' \<in> typing_namespace \<longrightarrow> ''normalize_name'' \<in> typing_namespace \<longrightarrow>
      (\<forall>n\<in>set NMRL_15. LOCI_TO_INDEX (normalize_name n) \<noteq> Some ''424'')"
    by (simp add: unbound)
  have b: "\<forall>n\<in>set NMRL_15. LOCI_TO_INDEX (normalize_name n) \<noteq> Some ''424''"
    by code_simp
  show ?thesis
    using from_string_resets_first [of "''3481096A2C22806''" NMRL_15 "''424''" typed typing_namespace]
      from_string_resets_first [of "''3481096A2C22806''" NMRL_15 "''424''" typed defs_names]
      l d u b typed_424
    by blast
qed

text \<open>
  Where the five names are bound, the example of the docstring is what the methods
  compute.
\<close>

lemma docstring_example_bound:
  "fst (to_string defs_names None
      (snd (from_string defs_names ''3481096A2C22806'' (Some NMRL_15) typed)))
   = Inr ''3481096A2C22806---------''"
  by code_simp

section \<open>Characters and counts\<close>

lemma int_to_alpha_small:
  assumes "0 \<le> v" "v < 10"
  shows "int_to_alpha (Some v) p = (Inr [char_of (48 + v)], p)"
proof -
  have "nat v < 10" using assms by simp
  moreover have "char_of (48 + nat v) = (char_of (48 + v) :: char)"
    using assms by (metis char_of_nat int_nat_eq of_nat_add of_nat_numeral)
  ultimately show ?thesis
    using assms by (simp add: int_to_alpha_def str_int_def)
qed

lemma int_to_alpha_large:
  assumes "10 \<le> v" "v \<le> 35"
  shows "int_to_alpha (Some v) p = (Inr [char_of (v + 55)], p)"
  using assms by (simp add: int_to_alpha_def ord_consts algebra_simps)

lemma alpha_to_int_valid:
  assumes "valid_chr (ambig_sym p) c"
  shows "int_to_alpha (decoded (ambig_sym p) c) p = (Inr [c], p)"
proof -
  consider "c = ambig_sym p" | "c \<noteq> ambig_sym p" "is_digit c"
    | "c \<noteq> ambig_sym p" "\<not> is_digit c" "is_upper c"
    using assms by (auto simp: valid_chr_def)
  then show ?thesis
  proof cases
    case 1
    then show ?thesis by (simp add: decoded_def int_to_alpha_def)
  next
    case 2
    then show ?thesis by (simp add: decoded_def int_to_alpha_digit)
  next
    case 3
    then have "upper_chr c = c"
      by (simp add: upper_chr_fixed is_upper_def ord_consts)
    with 3 show ?thesis by (simp add: decoded_def int_to_alpha_upper)
  qed
qed

lemma count_char_count:
  assumes "0 \<le> v" "v \<le> 35"
  shows "\<exists>c. int_to_alpha (Some v) p = (Inr [c], p) \<and>
             (c \<noteq> ambig_sym p \<longrightarrow> alpha_to_int c p = (Inr (Some v), p))"
proof (cases "v < 10")
  case True
  let ?c = "char_of (48 + v) :: char"
  have o: "ord ?c = 48 + v"
    using assms True by (simp add: ord_char_of)
  then have "is_digit ?c"
    using assms True by (simp add: is_digit_def ord_consts)
  with o have "?c \<noteq> ambig_sym p \<longrightarrow> decoded (ambig_sym p) ?c = Some v"
    by (simp add: decoded_def)
  then show ?thesis
    using int_to_alpha_small [OF assms(1) True, of p] by (auto simp: alpha_to_int_apply)
next
  case False
  let ?c = "char_of (v + 55) :: char"
  have o: "ord ?c = v + 55"
    using assms False by (simp add: ord_char_of)
  then have "\<not> is_digit ?c" "upper_chr ?c = ?c"
    using assms False by (simp_all add: is_digit_def ord_consts upper_chr_fixed)
  with o have "?c \<noteq> ambig_sym p \<longrightarrow> decoded (ambig_sym p) ?c = Some v"
    by (simp add: decoded_def)
  then show ?thesis
    using int_to_alpha_large [of v p] False assms by (auto simp: alpha_to_int_apply)
qed

text \<open>
  C4. The specification: \<open>alpha_to_int\<close> and \<open>int_to_alpha\<close> are inverse on the valid
  characters and on the counts 0 to 35 and \<^verbatim>\<open>None\<close>. \<open>alpha_to_int\<close> tests for the
  ambiguous symbol first, so when the symbol of the profile is itself a digit or an
  uppercase letter, the count written with that character is read back as \<^verbatim>\<open>None\<close>.
  As amended: for every valid character \<open>c\<close>, \<open>int_to_alpha\<close> of \<open>alpha_to_int c\<close> is
  \<open>c\<close>; for every count from 0 to 35, \<open>int_to_alpha\<close> gives one character, and
  \<open>alpha_to_int\<close> of it is the count unless that character is the ambiguous symbol
  of the profile; \<^verbatim>\<open>None\<close> and the ambiguous symbol are exchanged.
\<close>

theorem alpha_int_inverse:
  "(valid_chr (ambig_sym p) c \<longrightarrow>
      (\<exists>v. alpha_to_int c p = (Inr v, p) \<and> int_to_alpha v p = (Inr [c], p))) \<and>
   (0 \<le> v \<and> v \<le> 35 \<longrightarrow>
      (\<exists>c. int_to_alpha (Some v) p = (Inr [c], p) \<and>
           (c \<noteq> ambig_sym p \<longrightarrow> alpha_to_int c p = (Inr (Some v), p)))) \<and>
   int_to_alpha None p = (Inr [ambig_sym p], p) \<and>
   alpha_to_int (ambig_sym p) p = (Inr None, p)"
  using alpha_to_int_valid [of p c] count_char_count [of v p]
  by (simp add: alpha_to_int_apply decoded_def int_to_alpha_def)

lemma valid_Z: "valid_chr (CHR ''-'') (CHR ''Z'')"
  by code_simp

theorem alpha_int_inverse_witness:
  "valid_chr (ambig_sym (typed)) (CHR ''Z'') \<and>
   (\<exists>v. alpha_to_int (CHR ''Z'') (typed) = (Inr v, typed) \<and>
        int_to_alpha v (typed) = (Inr ''Z'', typed)) \<and>
   (\<exists>c. int_to_alpha (Some 35) (typed) = (Inr [c], typed) \<and>
        (c = ambig_sym (typed) \<or>
         alpha_to_int c (typed) = (Inr (Some 35), typed)))"
  using alpha_int_inverse [of "typed" "CHR ''Z''" 35] valid_Z
  by (simp add: typed_sym) blast

text \<open>
  On a profile with the ambiguous symbol \<^verbatim>\<open>N\<close>, the count 23 is written
  \<^verbatim>\<open>N\<close> and \<^verbatim>\<open>N\<close> is read as \<^verbatim>\<open>None\<close>.
\<close>

theorem alpha_int_symbol_N_counterexample:
  "fst (int_to_alpha (Some 23) ((typed\<lparr>ambig_sym := CHR ''N''\<rparr>))) = Inr ''N'' \<and>
   fst (alpha_to_int (CHR ''N'') ((typed\<lparr>ambig_sym := CHR ''N''\<rparr>))) = Inr None"
  by code_simp

section \<open>Values accepted by the setter\<close>








text \<open>The assertion \<^verbatim>\<open>0 < value\<close> rejects the integer 0 as well.\<close>

lemma setitem_zero: "setitem g n (IntVal 0) p = (Inl InvalidValue, p)"
  by (simp add: setitem_IntVal)

section \<open>Reading and writing through synonyms\<close>

text \<open>
  C7. The specification: reading and writing through any two synonyms of a locus
  reach the same slot, as the example of the docstring of \<^verbatim>\<open>__getitem__\<close> shows. In
  the module as written no read and no write reaches a slot: every read raises
  \<^verbatim>\<open>NameError\<close> at line 103, and every write raises at line 127 unless its value was
  rejected before, and leaves the profile as it was.
\<close>

theorem synonyms_reach_no_slot:
  "getitem typing_namespace n p = (Inl (NameError ''LOCI_TO_INDEX''), p) \<and>
   setitem typing_namespace n val p =
     (Inl (case val of
             StrVal c \<Rightarrow> NameError ''LOCI_TO_INDEX''
           | IntVal v \<Rightarrow> if 0 < v then NameError ''LOCI_TO_INDEX'' else InvalidValue
           | LongVal v \<Rightarrow> InvalidValue), p)"
  by (cases val) (simp_all add: getitem_unbound setitem_StrVal setitem_IntVal setitem_LongVal unbound)

text \<open>
  The table of \<^verbatim>\<open>defs.py\<close> itself does send the synonyms of a row to one name, and
  where the names are bound the example of the docstring is what the methods compute.
\<close>

lemma docstring_synonyms_bound:
  "fst (seq (setitem defs_names ''ETR-D'' (IntVal 5)) (\<lambda>u. getitem defs_names ''MIRU-04'') typed)
     = Inr (Some 5)"
  by code_simp

section \<open>The constructor\<close>

text \<open>
  C8. The specification: the keys of a profile are the canonical names of the
  catalogue from its construction on. In the module as written the constructor
  returns no profile: line 82 looks \<open>LOCI\<close> up and raises \<^verbatim>\<open>NameError\<close> before
  \<^verbatim>\<open>_data\<close> is bound, whatever the arguments.
\<close>

theorem constructor_raises:
  "TbType typing_namespace dat scheme a = Inl (NameError ''LOCI'')"
  by (simp add: TbType_def unbound)

section \<open>Building the index\<close>

lemma entries_append: "entries (xs @ ys) = entries xs @ entries ys"
  by (simp add: entries_def)

lemma entries_Cons: "entries (x # xs) = map (\<lambda>n. (normalize_name n, hd x)) x @ entries xs"
  by (simp add: entries_def)

lemma keys_of_entries: "fst ` set (entries catalogue) = normalize_name ` (\<Union>row\<in>set catalogue. set row)"
  by (force simp: entries_def)

lemma map_of_row:
  assumes "k \<in> normalize_name ` set y"
  shows "map_of (rev (map (\<lambda>n. (normalize_name n, c)) y)) k = Some c"
proof -
  let ?xs = "rev (map (\<lambda>n. (normalize_name n, c)) y)"
  from assms have "k \<in> fst ` set ?xs" by force
  then obtain v where v: "map_of ?xs k = Some v"
    by (metis map_of_eq_None_iff not_Some_eq)
  then have "(k, v) \<in> set ?xs" by (rule map_of_SomeD)
  then have "v = c" by auto
  with v show ?thesis by simp
qed

lemma last_row_wins:
  assumes "k \<in> normalize_name ` set y" "\<forall>z\<in>set post. k \<notin> normalize_name ` set z"
  shows "build_index (pre @ y # post) k = Some (hd y)"
proof -
  have "k \<notin> fst ` set (entries post)"
    using assms(2) unfolding keys_of_entries by blast
  then have "map_of (rev (entries post)) k = None"
    by (simp add: map_of_eq_None_iff)
  then show ?thesis
    using map_of_row [OF assms(1), of "hd y"]
    by (simp add: build_index_map_of entries_append entries_Cons map_add_def)
qed

lemma dom_build_index:
  "dom (build_index catalogue) = normalize_name ` (\<Union>row\<in>set catalogue. set row)"
  by (simp add: build_index_map_of dom_map_of_conv_image_fst keys_of_entries)

text \<open>
  C5. The specification: building the table fails when two synonyms of two different loci
  normalise to the same key, and never overwrites the entry of one locus with that of
  another. The loops of \<^verbatim>\<open>defs.py\<close> only store: nothing compares a key with the keys
  already there, and nothing raises. As amended: the table is built for every
  catalogue, its keys are the normalised names of all rows, and a key that names of
  several rows normalise to is bound to the canonical name of the last such row; in
  the catalogue \<open>LOCI\<close> itself every name of every row resolves to the canonical name
  of its own row.
\<close>

theorem build_index_last_row_wins:
  "(k \<in> normalize_name ` set y \<and> (\<forall>z\<in>set post. k \<notin> normalize_name ` set z) \<longrightarrow>
      build_index (pre @ y # post) k = Some (hd y)) \<and>
   dom (build_index catalogue) = normalize_name ` (\<Union>row\<in>set catalogue. set row) \<and>
   (\<forall>row\<in>set LOCI. \<forall>n\<in>set row. LOCI_TO_INDEX (normalize_name n) = Some (hd row))"
  using last_row_wins [of k y post pre] dom_build_index [of catalogue] synonym_resolves
  by blast

theorem build_index_last_row_wins_witness:
  "build_index [[''7'', ''Loc 7''], [''8'', ''LOC-7'', ''Loc 8''], [''9'', ''Loc 9'']] ''loc7'' = Some ''8'' \<and>
   LOCI_TO_INDEX (normalize_name ''ETR-D'') = Some ''580''"
proof -
  have k: "''loc7'' \<in> normalize_name ` set [''8'', ''LOC-7'', ''Loc 8'']"
    by code_simp
  have post: "\<forall>z\<in>set [[''9'', ''Loc 9'']]. ''loc7'' \<notin> normalize_name ` set z"
    by code_simp
  have row: "[''580'', ''MIRU-04'', ''MIRU-4'', ''ETR-D''] \<in> set LOCI"
    by (simp add: LOCI_def)
  note T = build_index_last_row_wins [of "''loc7''" "[''8'', ''LOC-7'', ''Loc 8'']" "[[''9'', ''Loc 9'']]"
      "[[''7'', ''Loc 7'']]" "[]"]
  from T k post have "build_index ([[''7'', ''Loc 7'']] @ [''8'', ''LOC-7'', ''Loc 8''] # [[''9'', ''Loc 9'']]) ''loc7'' = Some (hd [''8'', ''LOC-7'', ''Loc 8''])"
    by blast
  moreover from T row have "LOCI_TO_INDEX (normalize_name ''ETR-D'') = Some (hd [''580'', ''MIRU-04'', ''MIRU-4'', ''ETR-D''])"
    by (metis list.set_intros(1,2))
  ultimately show ?thesis by simp
qed

text \<open>
  A catalogue of two loci, \<^verbatim>\<open>1\<close> with the synonym \<^verbatim>\<open>A-B\<close> and \<^verbatim>\<open>2\<close> with the synonym
  \<^verbatim>\<open>AB\<close>: the two synonyms normalise to the same key, the table is built, and the
  key of the synonym of locus \<^verbatim>\<open>1\<close> resolves to locus \<^verbatim>\<open>2\<close>.
\<close>

theorem build_index_collision_counterexample:
  "normalize_name ''A-B'' = normalize_name ''AB'' \<and>
   build_index [[''1'', ''A-B''], [''2'', ''AB'']] (normalize_name ''A-B'') = Some ''2'' \<and>
   build_index [[''1'', ''A-B''], [''2'', ''AB'']] (normalize_name ''1'') = Some ''1''"
  by code_simp


end
